theory Spec2Isabelle
  imports Main "HOL-Library.Sublist" "HOL-Library.AList"
begin

section \<open>Values exchanged with the tracking server\<close>

text \<open>
  A Python \<open>str\<close> is a sequence of code points, and \<open>len\<close> counts code points.
  Here a \<open>string\<close> stands for a Python \<open>str\<close> whose code points are all below 256:
  one \<open>char\<close> is one code point (never one byte of an encoding).
\<close>

datatype json =
    JNull
  | JBool bool
  | JInt int
  | JStr string
  | JArr "json list"
  | JObj "(string \<times> json) list"

text \<open>A parsed JSON object: keys in insertion order.\<close>

type_synonym dict = "(string \<times> json) list"

text \<open>\<open>d.get(key, default)\<close>\<close>

definition dict_get :: "('k \<times> 'v) list \<Rightarrow> 'k \<Rightarrow> 'v \<Rightarrow> 'v" where
  "dict_get d k dflt = (case map_of d k of None \<Rightarrow> dflt | Some v \<Rightarrow> v)"

text \<open>\<open>body.get(key, default)\<close> where the body either has the key or not.\<close>

definition get_or :: "'a option \<Rightarrow> 'a \<Rightarrow> 'a" where
  "get_or v dflt = (case v of None \<Rightarrow> dflt | Some x \<Rightarrow> x)"

text \<open>
  What \<open>session.get\<close> does: it raises a \<open>requests.exceptions.RequestException\<close>
  (connection refused, timeout, ...) or returns a response with a status code and a body.
  The body is given as the value found under the one key that the caller reads from
  \<open>response.json()\<close> (\<open>None\<close> when the key is absent), or as \<open>response.text\<close>.
\<close>

datatype 'a response = RequestException | Response nat 'a

text \<open>\<open>response.raise_for_status()\<close> raises an \<open>HTTPError\<close> for 4xx and 5xx.\<close>

definition raise_for_status :: "nat \<Rightarrow> bool" where
  "raise_for_status status_code = (400 \<le> status_code \<and> status_code < 600)"

record experiment_record =
  experiment_id :: string
  name :: "string option"

record run_info =
  run_id :: string
  run_name :: "string option"

text \<open>An element of the \<open>runs\<close> list of \<open>/runs/search\<close>.\<close>

record run =
  info :: run_info

record run_data =
  tags :: "(string \<times> string) list option"
  params :: "(string \<times> string) list option"

record fetched_info =
  fetched_run_name :: "string option"
  fetched_experiment_id :: "string option"

text \<open>The \<open>run\<close> object of \<open>/runs/get\<close>; every key is read with \<open>.get\<close>.\<close>

record fetched_run =
  fetched_info :: "fetched_info option"
  data :: "run_data option"

definition empty_run :: fetched_run where
  "empty_run = \<lparr>fetched_info = None, data = None\<rparr>"

record artifact =
  path :: "string option"
  file_size :: "nat option"

record server =
  experiments_list :: "experiment_record list option response"
  experiments_get :: "string \<Rightarrow> dict option response"
  runs_search :: "string \<Rightarrow> run list option response"
  runs_get :: "string \<Rightarrow> fetched_run option response"
  metrics_get_history :: "string \<Rightarrow> json list option response"
  artifacts_list :: "string \<Rightarrow> artifact list option response"
  artifacts_download :: "string \<Rightarrow> string \<Rightarrow> string response"
  traces_search :: "string \<Rightarrow> dict list option response"

text \<open>\<open>self\<close>: the base URL and the session, behind which the server answers.\<close>

record dumper =
  mlflow_url :: string
  session :: server

text \<open>
  What the scripts take from their environment: \<open>json.dumps(_, indent=2)\<close>,
  \<open>json.loads\<close> (\<open>None\<close> for a \<open>JSONDecodeError\<close>),
  \<open>datetime.now().isoformat()\<close>, and whether opening and writing a file succeeds.
\<close>

record env =
  json_dumps :: "json \<Rightarrow> string"
  json_loads :: "string \<Rightarrow> json option"
  now_isoformat :: string
  write_succeeds :: "string \<Rightarrow> bool"

datatype request =
    Get_experiments_get string
  | Get_runs_search string
  | Get_runs_get string
  | Get_metrics_get_history string
  | Get_artifacts_list string
  | Get_artifacts_download string string
  | Get_traces_search string

text \<open>What the block "Save to file if specified" leaves behind.\<close>

datatype save_log =
    No_output_file
  | Info_saved_to string
  | Error_failed_to_save

section \<open>Strings\<close>

fun str_nat :: "nat \<Rightarrow> string" where
  "str_nat n =
     (if n < 10 then [char_of (48 + n)]
      else str_nat (n div 10) @ [char_of (48 + n mod 10)])"

declare str_nat.simps [simp del]

text \<open>\<open>str.lower()\<close> on code points below 256.\<close>

definition lower_char :: "char \<Rightarrow> char" where
  "lower_char c =
     (let n = (of_char c :: nat) in
      if (65 \<le> n \<and> n \<le> 90) \<or> (192 \<le> n \<and> n \<le> 222 \<and> n \<noteq> 215)
      then char_of (n + 32) else c)"

definition lower :: "string \<Rightarrow> string" where
  "lower s = map lower_char s"

text \<open>\<open>kw in s\<close> on strings.\<close>

fun str_in :: "string \<Rightarrow> string \<Rightarrow> bool" where
  "str_in kw [] = (kw = [])"
| "str_in kw (c # cs) = (prefix kw (c # cs) \<or> str_in kw cs)"

text \<open>\<open>any(keyword in s.lower() for keyword in keywords)\<close>\<close>

definition any_keyword :: "string list \<Rightarrow> string \<Rightarrow> bool" where
  "any_keyword keywords s = list_ex (\<lambda>keyword. str_in keyword (lower s)) keywords"

text \<open>The number of bytes of a text written as UTF-8 (code points below 256).\<close>

definition utf8_length :: "string \<Rightarrow> nat" where
  "utf8_length s = sum_list (map (\<lambda>c. if (of_char c :: nat) < 128 then 1 else 2) s)"

section \<open>experiment\_trace\_dumper.py: class ExperimentTraceDumper\<close>

text \<open>
  Every function of this class returns its value together with the requests it sent,
  in the order in which they were sent.
\<close>

datatype trace_record =
    Api_trace json dict string
  | Artifact_trace string string string nat
  | Metadata_trace string "(string \<times> string) list" "(string \<times> string) list" string

fun source :: "trace_record \<Rightarrow> string" where
  "source (Api_trace trace_id d content) = ''api''"
| "source (Artifact_trace trace_id artifact_path content sz) = ''artifact''"
| "source (Metadata_trace trace_id trace_tags trace_params content) = ''metadata''"

definition ETD_get_experiment_info :: "dumper \<Rightarrow> string \<Rightarrow> dict option \<times> request list" where
  "ETD_get_experiment_info self exp_id =
     (case experiments_get (session self) exp_id of
        RequestException \<Rightarrow> None
      | Response status_code body \<Rightarrow>
          if raise_for_status status_code then None else Some (get_or body []),
      [Get_experiments_get exp_id])"

definition ETD_get_runs_for_experiment :: "dumper \<Rightarrow> string \<Rightarrow> run list \<times> request list" where
  "ETD_get_runs_for_experiment self exp_id =
     (case runs_search (session self) exp_id of
        RequestException \<Rightarrow> []
      | Response status_code body \<Rightarrow>
          if raise_for_status status_code then [] else get_or body [],
      [Get_runs_search exp_id])"

text \<open>Method 1: \<open>for trace in api_traces: traces.append({...})\<close>\<close>

fun ETD_api_loop :: "env \<Rightarrow> dict list \<Rightarrow> trace_record list \<Rightarrow> trace_record list" where
  "ETD_api_loop E [] traces = traces"
| "ETD_api_loop E (trace # rest) traces =
     ETD_api_loop E rest
       (traces @
        [Api_trace
           (dict_get trace ''trace_id'' (JStr (''api_trace_'' @ str_nat (length traces))))
           trace
           (json_dumps E (JObj trace))])"

definition ETD_artifact_keywords :: "string list" where
  "ETD_artifact_keywords =
     [''trace'', ''langraph'', ''agent'', ''execution'', ''workflow'', ''flow'']"

text \<open>Method 2: \<open>for artifact in artifacts: ...\<close>; a failed download is skipped.\<close>

fun ETD_artifact_loop ::
  "dumper \<Rightarrow> string \<Rightarrow> artifact list \<Rightarrow> trace_record list \<times> request list
     \<Rightarrow> trace_record list \<times> request list" where
  "ETD_artifact_loop self rid [] st = st"
| "ETD_artifact_loop self rid (a # rest) (traces, reqs) =
     (let artifact_path = get_or (path a) [] in
      if any_keyword ETD_artifact_keywords artifact_path then
        (case artifacts_download (session self) rid artifact_path of
           RequestException \<Rightarrow>
             ETD_artifact_loop self rid rest
               (traces, reqs @ [Get_artifacts_download rid artifact_path])
         | Response status_code trace_content \<Rightarrow>
             if status_code = 200 then
               ETD_artifact_loop self rid rest
                 (traces @
                  [Artifact_trace artifact_path artifact_path trace_content
                     (length trace_content)],
                  reqs @ [Get_artifacts_download rid artifact_path])
             else
               ETD_artifact_loop self rid rest
                 (traces, reqs @ [Get_artifacts_download rid artifact_path]))
      else ETD_artifact_loop self rid rest (traces, reqs))"

definition ETD_metadata_keywords :: "string list" where
  "ETD_metadata_keywords = [''trace'', ''langraph'', ''agent'']"

definition str_dict :: "(string \<times> string) list \<Rightarrow> json" where
  "str_dict d = JObj (map (\<lambda>(k, v). (k, JStr v)) d)"

text \<open>Method 3, after the status check of \<open>/runs/get\<close>.\<close>

definition ETD_metadata_step ::
  "env \<Rightarrow> string \<Rightarrow> fetched_run option \<Rightarrow> trace_record list \<Rightarrow> trace_record list" where
  "ETD_metadata_step E rid body traces =
     (let run_data = get_or body empty_run;
          tags = get_or (tags (get_or (data run_data) \<lparr>tags = None, params = None\<rparr>)) [];
          params = get_or (params (get_or (data run_data) \<lparr>tags = None, params = None\<rparr>)) [];
          trace_tags = filter (\<lambda>(k, v). any_keyword ETD_metadata_keywords k) tags;
          trace_params = filter (\<lambda>(k, v). any_keyword ETD_metadata_keywords k) params
      in if trace_tags \<noteq> [] \<or> trace_params \<noteq> [] then
           traces @
           [Metadata_trace (''metadata_trace_'' @ rid) trace_tags trace_params
              (json_dumps E
                 (JObj [(''tags'', str_dict trace_tags), (''params'', str_dict trace_params)]))]
         else traces)"

definition ETD_get_traces_for_run ::
  "env \<Rightarrow> dumper \<Rightarrow> string \<Rightarrow> trace_record list \<times> request list" where
  "ETD_get_traces_for_run E self rid =
     (case traces_search (session self) rid of
        RequestException \<Rightarrow> ([], [Get_traces_search rid])
      | Response status_code body \<Rightarrow>
          (let traces1 = (if status_code = 200 then ETD_api_loop E (get_or body []) [] else [])
           in case artifacts_list (session self) rid of
                RequestException \<Rightarrow> ([], [Get_traces_search rid, Get_artifacts_list rid])
              | Response artifacts_status artifacts_body \<Rightarrow>
                  (let (traces2, reqs2) =
                         (if artifacts_status = 200 then
                            ETD_artifact_loop self rid (get_or artifacts_body [])
                              (traces1, [Get_traces_search rid, Get_artifacts_list rid])
                          else (traces1, [Get_traces_search rid, Get_artifacts_list rid]))
                   in case runs_get (session self) rid of
                        RequestException \<Rightarrow> ([], reqs2 @ [Get_runs_get rid])
                      | Response run_status run_body \<Rightarrow>
                          (if run_status = 200 then ETD_metadata_step E rid run_body traces2
                           else traces2,
                           reqs2 @ [Get_runs_get rid]))))"

record run_details =
  rd_run_data :: fetched_run
  rd_metrics :: "json list"
  rd_artifacts :: "artifact list"

definition ETD_get_run_details :: "dumper \<Rightarrow> string \<Rightarrow> run_details option \<times> request list" where
  "ETD_get_run_details self rid =
     (case runs_get (session self) rid of
        RequestException \<Rightarrow> (None, [Get_runs_get rid])
      | Response status_code body \<Rightarrow>
          if raise_for_status status_code then (None, [Get_runs_get rid])
          else
            (case metrics_get_history (session self) rid of
               RequestException \<Rightarrow> (None, [Get_runs_get rid, Get_metrics_get_history rid])
             | Response metrics_status metrics_body \<Rightarrow>
                 (case artifacts_list (session self) rid of
                    RequestException \<Rightarrow>
                      (None,
                       [Get_runs_get rid, Get_metrics_get_history rid, Get_artifacts_list rid])
                  | Response artifacts_status artifacts_body \<Rightarrow>
                      (Some \<lparr>rd_run_data = get_or body empty_run,
                             rd_metrics =
                               (if metrics_status = 200 then get_or metrics_body [] else []),
                             rd_artifacts =
                               (if artifacts_status = 200 then get_or artifacts_body []
                                else [])\<rparr>,
                       [Get_runs_get rid, Get_metrics_get_history rid,
                        Get_artifacts_list rid]))))"

record ETD_metadata =
  md_mlflow_url :: string
  md_experiment_id :: string
  md_experiment_name :: json
  md_dump_timestamp :: string
  md_total_runs :: nat
  md_total_traces :: nat

record ETD_run_entry =
  run_info :: run
  run_details :: "run_details option"
  traces :: "trace_record list"

record ETD_document =
  metadata :: ETD_metadata
  experiment_info :: dict
  runs :: "ETD_run_entry list"

text \<open>\<open>for run in runs: ...\<close> of \<open>dump_experiment_traces\<close>.\<close>

fun ETD_runs_loop ::
  "env \<Rightarrow> dumper \<Rightarrow> run list \<Rightarrow> ETD_document \<times> request list
     \<Rightarrow> ETD_document \<times> request list" where
  "ETD_runs_loop E self [] st = st"
| "ETD_runs_loop E self (r # rest) (experiment_traces, reqs) =
     (let rid = run_id (info r);
          (details, reqs1) = ETD_get_run_details self rid;
          (trs, reqs2) = ETD_get_traces_for_run E self rid;
          run_entry = \<lparr>run_info = r, run_details = details, traces = trs\<rparr>
      in ETD_runs_loop E self rest
           (experiment_traces
              \<lparr>metadata := (metadata experiment_traces)
                 \<lparr>md_total_traces :=
                    md_total_traces (metadata experiment_traces) + length trs\<rparr>,
               runs := runs experiment_traces @ [run_entry]\<rparr>,
            reqs @ reqs1 @ reqs2))"

text \<open>\<open>if output_file: try: open; json.dump ... except Exception: logger.error\<close>\<close>

definition save_to_file :: "env \<Rightarrow> string option \<Rightarrow> save_log" where
  "save_to_file E output_file =
     (case output_file of
        None \<Rightarrow> No_output_file
      | Some file \<Rightarrow>
          if file = [] then No_output_file
          else if write_succeeds E file then Info_saved_to file
          else Error_failed_to_save)"

text \<open>
  The result is the returned dictionary (\<open>None\<close> for the empty dictionary \<open>{}\<close>), what
  the save block did, and the requests sent.
\<close>

definition ETD_dump_experiment_traces ::
  "env \<Rightarrow> dumper \<Rightarrow> string \<Rightarrow> string option
     \<Rightarrow> ETD_document option \<times> save_log \<times> request list" where
  "ETD_dump_experiment_traces E self exp_id output_file =
     (case ETD_get_experiment_info self exp_id of
        (None, reqs0) \<Rightarrow> (None, No_output_file, reqs0)
      | (Some exp_info, reqs0) \<Rightarrow>
          if exp_info = [] then (None, No_output_file, reqs0)
          else
            (let experiment_traces =
                   \<lparr>metadata =
                      \<lparr>md_mlflow_url = mlflow_url self,
                       md_experiment_id = exp_id,
                       md_experiment_name = dict_get exp_info ''name'' (JStr ''Unknown''),
                       md_dump_timestamp = now_isoformat E,
                       md_total_runs = 0,
                       md_total_traces = 0\<rparr>,
                    experiment_info = exp_info,
                    runs = []\<rparr>;
                 (rs, reqs1) = ETD_get_runs_for_experiment self exp_id;
                 experiment_traces1 =
                   experiment_traces
                     \<lparr>metadata := (metadata experiment_traces)\<lparr>md_total_runs := length rs\<rparr>\<rparr>;
                 (experiment_traces2, reqs2) =
                   ETD_runs_loop E self rs (experiment_traces1, reqs0 @ reqs1)
             in (Some experiment_traces2, save_to_file E output_file, reqs2)))"

section \<open>mlflow\_trace\_dumper.py: class MLflowTraceDumper\<close>

text \<open>
  \<open>get_all_experiments\<close> and \<open>get_runs_for_experiment\<close> have the same body in
  \<open>mlflow_trace_dumper.py\<close>, \<open>mlflow/mlflow_trace_dumper.py\<close> and
  \<open>mlflow/langraph_trace_dumper.py\<close>.
\<close>

definition get_all_experiments :: "dumper \<Rightarrow> experiment_record list" where
  "get_all_experiments self =
     (case experiments_list (session self) of
        RequestException \<Rightarrow> []
      | Response status_code body \<Rightarrow>
          if raise_for_status status_code then [] else get_or body [])"

definition get_runs_for_experiment :: "dumper \<Rightarrow> string \<Rightarrow> run list" where
  "get_runs_for_experiment self exp_id =
     (case runs_search (session self) exp_id of
        RequestException \<Rightarrow> []
      | Response status_code body \<Rightarrow>
          if raise_for_status status_code then [] else get_or body [])"

text \<open>
  An element of the list returned by \<open>get_traces_for_run\<close>: a trace object of
  \<open>/traces/search\<close> as it came, or the dictionary built for a downloaded artifact
  (\<open>trace_id\<close>, \<open>content\<close>, \<open>artifact_path\<close>, \<open>size\<close>).
\<close>

datatype MTD_trace =
    Raw_trace dict
  | Artifact_file string string string nat

definition MTD_keywords :: "string list" where
  "MTD_keywords = [''trace'', ''langraph'', ''agent'']"

text \<open>
  The path is read with \<open>artifact.get('path', '')\<close> for the test and with
  \<open>artifact['path']\<close> after it; the test fails on the empty string, so the key is
  present where it is indexed.
\<close>

fun MTD_artifact_loop ::
  "dumper \<Rightarrow> string \<Rightarrow> artifact list \<Rightarrow> MTD_trace list \<Rightarrow> MTD_trace list" where
  "MTD_artifact_loop self rid [] acc = acc"
| "MTD_artifact_loop self rid (a # rest) acc =
     (let artifact_path = get_or (path a) [] in
      if any_keyword MTD_keywords artifact_path then
        (case artifacts_download (session self) rid artifact_path of
           RequestException \<Rightarrow> MTD_artifact_loop self rid rest acc
         | Response status_code trace_content \<Rightarrow>
             if status_code = 200 then
               MTD_artifact_loop self rid rest
                 (acc @
                  [Artifact_file artifact_path trace_content artifact_path
                     (length trace_content)])
             else MTD_artifact_loop self rid rest acc)
      else MTD_artifact_loop self rid rest acc)"

definition MTD_get_traces_for_run :: "dumper \<Rightarrow> string \<Rightarrow> MTD_trace list" where
  "MTD_get_traces_for_run self rid =
     (case traces_search (session self) rid of
        RequestException \<Rightarrow> []
      | Response status_code body \<Rightarrow>
          if status_code = 200 then map Raw_trace (get_or body [])
          else
            (case artifacts_list (session self) rid of
               RequestException \<Rightarrow> []
             | Response artifacts_status artifacts_body \<Rightarrow>
                 if artifacts_status = 200 then
                   MTD_artifact_loop self rid (get_or artifacts_body []) []
                 else []))"

text \<open>
  \<open>trace_data[f"artifact_{artifact['path']}"] = artifact_response.text\<close> for every matching
  artifact that downloads with status 200; an assignment to a key already there replaces
  its value.
\<close>

fun download_loop ::
  "dumper \<Rightarrow> string \<Rightarrow> artifact list \<Rightarrow> (string \<times> string) list
     \<Rightarrow> (string \<times> string) list" where
  "download_loop self rid [] texts = texts"
| "download_loop self rid (a # rest) texts =
     (let artifact_path = get_or (path a) [] in
      if any_keyword MTD_keywords artifact_path then
        (case artifacts_download (session self) rid artifact_path of
           RequestException \<Rightarrow> download_loop self rid rest texts
         | Response status_code content \<Rightarrow>
             if status_code = 200 then
               download_loop self rid rest
                 (AList.update (''artifact_'' @ artifact_path) content texts)
             else download_loop self rid rest texts)
      else download_loop self rid rest texts)"

record MTD_trace_data =
  td_run_id :: string
  td_run_data :: fetched_run
  td_metrics :: json
  td_parameters :: "(string \<times> string) list"
  td_tags :: "(string \<times> string) list"
  td_artifacts :: "artifact list"
  td_traces :: "MTD_trace list"
  td_artifact_texts :: "(string \<times> string) list"

definition run_data_or_empty :: "fetched_run \<Rightarrow> run_data" where
  "run_data_or_empty r = get_or (data r) \<lparr>tags = None, params = None\<rparr>"

definition MTD_get_trace_data :: "dumper \<Rightarrow> string \<Rightarrow> MTD_trace_data option" where
  "MTD_get_trace_data self rid =
     (case runs_get (session self) rid of
        RequestException \<Rightarrow> None
      | Response status_code body \<Rightarrow>
          if raise_for_status status_code then None
          else
            (case metrics_get_history (session self) rid of
               RequestException \<Rightarrow> None
             | Response metrics_status metrics_body \<Rightarrow>
                 (case runs_get (session self) rid of
                    RequestException \<Rightarrow> None
                  | Response params_status params_body \<Rightarrow>
                      (case artifacts_list (session self) rid of
                         RequestException \<Rightarrow> None
                       | Response artifacts_status artifacts_body \<Rightarrow>
                           Some
                             \<lparr>td_run_id = rid,
                              td_run_data = get_or body empty_run,
                              td_metrics =
                                (if metrics_status = 200 then JArr (get_or metrics_body [])
                                 else JObj []),
                              td_parameters =
                                (if params_status = 200 then
                                   get_or
                                     (params (run_data_or_empty (get_or params_body empty_run)))
                                     []
                                 else []),
                              td_tags =
                                (if params_status = 200 then
                                   get_or
                                     (tags (run_data_or_empty (get_or params_body empty_run)))
                                     []
                                 else []),
                              td_artifacts =
                                (if artifacts_status = 200 then get_or artifacts_body []
                                 else []),
                              td_traces = MTD_get_traces_for_run self rid,
                              td_artifact_texts =
                                (if artifacts_status = 200 then
                                   download_loop self rid (get_or artifacts_body []) []
                                 else [])\<rparr>))))"

text \<open>A run of the search result with the key \<open>trace_data\<close> set on it.\<close>

record MTD_run_entry =
  mtd_run :: run
  mtd_trace_data :: "MTD_trace_data option"

record MTD_experiment_metadata =
  mtd_e_mlflow_url :: string
  mtd_e_experiment_id :: string
  mtd_e_dump_timestamp :: string
  mtd_e_total_runs :: nat
  mtd_e_total_traces :: nat

record MTD_experiment_document =
  mtd_e_metadata :: MTD_experiment_metadata
  mtd_e_runs :: "MTD_run_entry list"

text \<open>\<open>for run in runs: ...\<close> of \<open>dump_experiment_traces\<close>.\<close>

fun MTD_experiment_runs_loop ::
  "dumper \<Rightarrow> run list \<Rightarrow> MTD_experiment_document \<Rightarrow> MTD_experiment_document" where
  "MTD_experiment_runs_loop self [] experiment_traces = experiment_traces"
| "MTD_experiment_runs_loop self (r # rest) experiment_traces =
     (case MTD_get_trace_data self (run_id (info r)) of
        Some trace_data \<Rightarrow>
          MTD_experiment_runs_loop self rest
            (experiment_traces
               \<lparr>mtd_e_metadata := (mtd_e_metadata experiment_traces)
                  \<lparr>mtd_e_total_traces :=
                     mtd_e_total_traces (mtd_e_metadata experiment_traces) +
                     length (td_traces trace_data)\<rparr>,
                mtd_e_runs := mtd_e_runs experiment_traces @
                  [\<lparr>mtd_run = r, mtd_trace_data = Some trace_data\<rparr>]\<rparr>)
      | None \<Rightarrow>
          MTD_experiment_runs_loop self rest
            (experiment_traces
               \<lparr>mtd_e_runs := mtd_e_runs experiment_traces @
                  [\<lparr>mtd_run = r, mtd_trace_data = None\<rparr>]\<rparr>))"

definition MTD_dump_experiment_traces ::
  "env \<Rightarrow> dumper \<Rightarrow> string \<Rightarrow> string option \<Rightarrow> MTD_experiment_document \<times> save_log" where
  "MTD_dump_experiment_traces E self exp_id output_file =
     (let experiment_traces =
            \<lparr>mtd_e_metadata =
               \<lparr>mtd_e_mlflow_url = mlflow_url self,
                mtd_e_experiment_id = exp_id,
                mtd_e_dump_timestamp = now_isoformat E,
                mtd_e_total_runs = 0,
                mtd_e_total_traces = 0\<rparr>,
             mtd_e_runs = []\<rparr>;
          rs = get_runs_for_experiment self exp_id;
          experiment_traces1 =
            experiment_traces
              \<lparr>mtd_e_metadata :=
                 (mtd_e_metadata experiment_traces)\<lparr>mtd_e_total_runs := length rs\<rparr>\<rparr>
      in (MTD_experiment_runs_loop self rs experiment_traces1, save_to_file E output_file))"

record all_metadata =
  all_mlflow_url :: string
  all_dump_timestamp :: string
  total_experiments :: nat
  total_runs :: nat
  total_traces :: nat

record MTD_experiment_data =
  mtd_experiment_info :: experiment_record
  mtd_runs :: "MTD_run_entry list"

record MTD_document =
  mtd_metadata :: all_metadata
  mtd_experiments :: "MTD_experiment_data list"

text \<open>
  The inner loop of \<open>dump_all_traces\<close>: it sets \<open>trace_data\<close> on every run of the list
  that \<open>experiment_data["runs"]\<close> refers to, and adds to \<open>total_traces\<close>.
\<close>

fun MTD_all_runs_loop ::
  "dumper \<Rightarrow> run list \<Rightarrow> nat \<times> MTD_run_entry list \<Rightarrow> nat \<times> MTD_run_entry list" where
  "MTD_all_runs_loop self [] st = st"
| "MTD_all_runs_loop self (r # rest) (n_traces, entries) =
     (case MTD_get_trace_data self (run_id (info r)) of
        Some trace_data \<Rightarrow>
          MTD_all_runs_loop self rest
            (n_traces + length (td_traces trace_data),
             entries @ [\<lparr>mtd_run = r, mtd_trace_data = Some trace_data\<rparr>])
      | None \<Rightarrow>
          MTD_all_runs_loop self rest
            (n_traces, entries @ [\<lparr>mtd_run = r, mtd_trace_data = None\<rparr>]))"

fun MTD_experiments_loop ::
  "dumper \<Rightarrow> experiment_record list \<Rightarrow> MTD_document \<Rightarrow> MTD_document" where
  "MTD_experiments_loop self [] all_traces = all_traces"
| "MTD_experiments_loop self (e # rest) all_traces =
     (let rs = get_runs_for_experiment self (experiment_id e);
          (n_traces, entries) =
            MTD_all_runs_loop self rs (total_traces (mtd_metadata all_traces), [])
      in MTD_experiments_loop self rest
           (all_traces
              \<lparr>mtd_metadata := (mtd_metadata all_traces)
                 \<lparr>total_runs := total_runs (mtd_metadata all_traces) + length rs,
                  total_traces := n_traces\<rparr>,
               mtd_experiments := mtd_experiments all_traces @
                 [\<lparr>mtd_experiment_info = e, mtd_runs = entries\<rparr>]\<rparr>))"

definition MTD_dump_all_traces ::
  "env \<Rightarrow> dumper \<Rightarrow> string option \<Rightarrow> MTD_document \<times> save_log" where
  "MTD_dump_all_traces E self output_file =
     (let all_traces =
            \<lparr>mtd_metadata =
               \<lparr>all_mlflow_url = mlflow_url self,
                all_dump_timestamp = now_isoformat E,
                total_experiments = 0,
                total_runs = 0,
                total_traces = 0\<rparr>,
             mtd_experiments = []\<rparr>;
          experiments = get_all_experiments self;
          all_traces1 =
            all_traces
              \<lparr>mtd_metadata :=
                 (mtd_metadata all_traces)\<lparr>total_experiments := length experiments\<rparr>\<rparr>
      in (MTD_experiments_loop self experiments all_traces1, save_to_file E output_file))"

section \<open>mlflow/mlflow\_trace\_dumper.py: class MLflowTraceDumper\<close>

text \<open>
  This variant has no \<open>get_traces_for_run\<close> and its \<open>trace_data\<close> has no key
  \<open>traces\<close>; the downloaded artifacts are its entries \<open>artifact_<path>\<close>.
\<close>

record MLF_trace_data =
  mlf_run_id :: string
  mlf_run_data :: fetched_run
  mlf_metrics :: json
  mlf_parameters :: "(string \<times> string) list"
  mlf_tags :: "(string \<times> string) list"
  mlf_artifacts :: "artifact list"
  mlf_artifact_texts :: "(string \<times> string) list"

definition MLF_get_trace_data :: "dumper \<Rightarrow> string \<Rightarrow> MLF_trace_data option" where
  "MLF_get_trace_data self rid =
     (case runs_get (session self) rid of
        RequestException \<Rightarrow> None
      | Response status_code body \<Rightarrow>
          if raise_for_status status_code then None
          else
            (case metrics_get_history (session self) rid of
               RequestException \<Rightarrow> None
             | Response metrics_status metrics_body \<Rightarrow>
                 (case runs_get (session self) rid of
                    RequestException \<Rightarrow> None
                  | Response params_status params_body \<Rightarrow>
                      (case artifacts_list (session self) rid of
                         RequestException \<Rightarrow> None
                       | Response artifacts_status artifacts_body \<Rightarrow>
                           Some
                             \<lparr>mlf_run_id = rid,
                              mlf_run_data = get_or body empty_run,
                              mlf_metrics =
                                (if metrics_status = 200 then JArr (get_or metrics_body [])
                                 else JObj []),
                              mlf_parameters =
                                (if params_status = 200 then
                                   get_or
                                     (params (run_data_or_empty (get_or params_body empty_run)))
                                     []
                                 else []),
                              mlf_tags =
                                (if params_status = 200 then
                                   get_or
                                     (tags (run_data_or_empty (get_or params_body empty_run)))
                                     []
                                 else []),
                              mlf_artifacts =
                                (if artifacts_status = 200 then get_or artifacts_body []
                                 else []),
                              mlf_artifact_texts =
                                (if artifacts_status = 200 then
                                   download_loop self rid (get_or artifacts_body []) []
                                 else [])\<rparr>))))"

record MLF_run_entry =
  mlf_run :: run
  mlf_trace_data :: "MLF_trace_data option"

record MLF_experiment_data =
  mlf_experiment_info :: experiment_record
  mlf_runs :: "MLF_run_entry list"

record MLF_document =
  mlf_metadata :: all_metadata
  mlf_experiments :: "MLF_experiment_data list"

fun MLF_runs_loop ::
  "dumper \<Rightarrow> run list \<Rightarrow> nat \<times> MLF_run_entry list \<Rightarrow> nat \<times> MLF_run_entry list" where
  "MLF_runs_loop self [] st = st"
| "MLF_runs_loop self (r # rest) (n_traces, entries) =
     (case MLF_get_trace_data self (run_id (info r)) of
        Some trace_data \<Rightarrow>
          MLF_runs_loop self rest
            (n_traces + 1, entries @ [\<lparr>mlf_run = r, mlf_trace_data = Some trace_data\<rparr>])
      | None \<Rightarrow>
          MLF_runs_loop self rest
            (n_traces, entries @ [\<lparr>mlf_run = r, mlf_trace_data = None\<rparr>]))"

fun MLF_experiments_loop ::
  "dumper \<Rightarrow> experiment_record list \<Rightarrow> MLF_document \<Rightarrow> MLF_document" where
  "MLF_experiments_loop self [] all_traces = all_traces"
| "MLF_experiments_loop self (e # rest) all_traces =
     (let rs = get_runs_for_experiment self (experiment_id e);
          (n_traces, entries) =
            MLF_runs_loop self rs (total_traces (mlf_metadata all_traces), [])
      in MLF_experiments_loop self rest
           (all_traces
              \<lparr>mlf_metadata := (mlf_metadata all_traces)
                 \<lparr>total_runs := total_runs (mlf_metadata all_traces) + length rs,
                  total_traces := n_traces\<rparr>,
               mlf_experiments := mlf_experiments all_traces @
                 [\<lparr>mlf_experiment_info = e, mlf_runs = entries\<rparr>]\<rparr>))"

definition MLF_dump_all_traces ::
  "env \<Rightarrow> dumper \<Rightarrow> string option \<Rightarrow> MLF_document \<times> save_log" where
  "MLF_dump_all_traces E self output_file =
     (let all_traces =
            \<lparr>mlf_metadata =
               \<lparr>all_mlflow_url = mlflow_url self,
                all_dump_timestamp = now_isoformat E,
                total_experiments = 0,
                total_runs = 0,
                total_traces = 0\<rparr>,
             mlf_experiments = []\<rparr>;
          experiments = get_all_experiments self;
          all_traces1 =
            all_traces
              \<lparr>mlf_metadata :=
                 (mlf_metadata all_traces)\<lparr>total_experiments := length experiments\<rparr>\<rparr>
      in (MLF_experiments_loop self experiments all_traces1, save_to_file E output_file))"

section \<open>mlflow/langraph\_trace\_dumper.py: class LangGraphTraceDumper\<close>

definition LG_keywords :: "string list" where
  "LG_keywords = [''langraph'', ''agent'', ''trace'']"

text \<open>The tag values are strings, so \<open>str(tag_value)\<close> is the value.\<close>

fun LG_tags_loop :: "(string \<times> string) list \<Rightarrow> bool" where
  "LG_tags_loop [] = False"
| "LG_tags_loop ((tag_key, tag_value) # rest) =
     (if any_keyword LG_keywords tag_key then True
      else if any_keyword LG_keywords tag_value then True
      else LG_tags_loop rest)"

definition empty_info :: fetched_info where
  "empty_info = \<lparr>fetched_run_name = None, fetched_experiment_id = None\<rparr>"

definition LG_is_langraph_trace :: "fetched_run \<Rightarrow> bool" where
  "LG_is_langraph_trace run_data =
     (if LG_tags_loop (get_or (tags (run_data_or_empty run_data)) []) then True
      else if any_keyword LG_keywords
                (get_or (fetched_run_name (get_or (fetched_info run_data) empty_info)) [])
      then True
      else if any_keyword LG_keywords
                (get_or (fetched_experiment_id (get_or (fetched_info run_data) empty_info)) [])
      then True
      else False)"

definition LG_patterns :: "string list" where
  "LG_patterns =
     [''trace.json'', ''trace.jsonl'', ''langraph_trace'', ''agent_trace'',
      ''trace_data'', ''execution_trace'', ''workflow_trace'']"

record LG_trace_file =
  tf_path :: string
  tf_content :: string
  tf_size :: nat

text \<open>
  The loop over the artifacts: it appends to \<open>trace_files\<close> and assigns
  \<open>langraph_trace[artifact_path]\<close> the parsed JSON, or the text when it does not parse.
\<close>

fun LG_artifact_loop ::
  "env \<Rightarrow> dumper \<Rightarrow> string \<Rightarrow> artifact list \<Rightarrow> LG_trace_file list \<times> (string \<times> json) list
     \<Rightarrow> LG_trace_file list \<times> (string \<times> json) list" where
  "LG_artifact_loop E self rid [] st = st"
| "LG_artifact_loop E self rid (a # rest) (files, parsed) =
     (let artifact_path = get_or (path a) [] in
      if any_keyword LG_patterns artifact_path then
        (case artifacts_download (session self) rid artifact_path of
           RequestException \<Rightarrow> LG_artifact_loop E self rid rest (files, parsed)
         | Response status_code trace_content \<Rightarrow>
             if status_code = 200 then
               LG_artifact_loop E self rid rest
                 (files @
                  [\<lparr>tf_path = artifact_path, tf_content = trace_content,
                    tf_size = length trace_content\<rparr>],
                  AList.update artifact_path
                    (case json_loads E trace_content of
                       Some trace_json \<Rightarrow> trace_json
                     | None \<Rightarrow> JStr trace_content)
                    parsed)
             else LG_artifact_loop E self rid rest (files, parsed))
      else LG_artifact_loop E self rid rest (files, parsed))"

definition LG_info_keywords :: "string list" where
  "LG_info_keywords = [''langraph'', ''agent'', ''trace'', ''workflow'']"

fun LG_info_loop ::
  "string \<Rightarrow> (string \<times> string) list \<Rightarrow> (string \<times> string) list \<Rightarrow> (string \<times> string) list" where
  "LG_info_loop prefix_str [] langraph_info = langraph_info"
| "LG_info_loop prefix_str ((k, v) # rest) langraph_info =
     (if any_keyword LG_info_keywords k then
        LG_info_loop prefix_str rest (AList.update (prefix_str @ k) v langraph_info)
      else LG_info_loop prefix_str rest langraph_info)"

record LG_trace_data =
  lg_run_id :: string
  lg_run_info :: fetched_info
  lg_run_data :: run_data
  langraph_trace :: "(string \<times> json) list"
  lg_artifacts :: "artifact list"
  trace_files :: "LG_trace_file list"
  langraph_info :: "(string \<times> string) list option"
  lg_experiment_info :: "experiment_record option"

definition LG_get_langraph_trace_data :: "env \<Rightarrow> dumper \<Rightarrow> string \<Rightarrow> LG_trace_data option" where
  "LG_get_langraph_trace_data E self rid =
     (case runs_get (session self) rid of
        RequestException \<Rightarrow> None
      | Response status_code body \<Rightarrow>
          if raise_for_status status_code then None
          else
            (let run_data = get_or body empty_run in
             if \<not> LG_is_langraph_trace run_data then None
             else
               (case artifacts_list (session self) rid of
                  RequestException \<Rightarrow> None
                | Response artifacts_status artifacts_body \<Rightarrow>
                    (let (files, parsed) =
                           (if artifacts_status = 200 then
                              LG_artifact_loop E self rid (get_or artifacts_body []) ([], [])
                            else ([], []));
                         info1 =
                           LG_info_loop ''tag_''
                             (get_or (tags (run_data_or_empty run_data)) []) [];
                         info2 =
                           LG_info_loop ''param_''
                             (get_or (params (run_data_or_empty run_data)) []) info1
                     in Some
                          \<lparr>lg_run_id = rid,
                           lg_run_info = get_or (fetched_info run_data) empty_info,
                           lg_run_data = run_data_or_empty run_data,
                           langraph_trace = parsed,
                           lg_artifacts =
                             (if artifacts_status = 200 then get_or artifacts_body [] else []),
                           trace_files = files,
                           langraph_info = (if info2 \<noteq> [] then Some info2 else None),
                           lg_experiment_info = None\<rparr>))))"

record LG_metadata =
  lg_mlflow_url :: string
  lg_dump_timestamp :: string
  lg_total_experiments :: nat
  lg_total_runs :: nat
  total_langraph_traces :: nat

record LG_document =
  lg_metadata :: LG_metadata
  langraph_traces :: "LG_trace_data list"

fun LG_runs_loop ::
  "env \<Rightarrow> dumper \<Rightarrow> experiment_record \<Rightarrow> run list \<Rightarrow> LG_document \<Rightarrow> LG_document" where
  "LG_runs_loop E self e [] all_traces = all_traces"
| "LG_runs_loop E self e (r # rest) all_traces =
     (case LG_get_langraph_trace_data E self (run_id (info r)) of
        Some trace_data \<Rightarrow>
          LG_runs_loop E self e rest
            (all_traces
               \<lparr>lg_metadata := (lg_metadata all_traces)
                  \<lparr>total_langraph_traces :=
                     total_langraph_traces (lg_metadata all_traces) + 1\<rparr>,
                langraph_traces := langraph_traces all_traces @
                  [trace_data\<lparr>lg_experiment_info := Some e\<rparr>]\<rparr>)
      | None \<Rightarrow> LG_runs_loop E self e rest all_traces)"

fun LG_experiments_loop ::
  "env \<Rightarrow> dumper \<Rightarrow> experiment_record list \<Rightarrow> LG_document \<Rightarrow> LG_document" where
  "LG_experiments_loop E self [] all_traces = all_traces"
| "LG_experiments_loop E self (e # rest) all_traces =
     (let rs = get_runs_for_experiment self (experiment_id e)
      in LG_experiments_loop E self rest
           (LG_runs_loop E self e rs
              (all_traces
                 \<lparr>lg_metadata := (lg_metadata all_traces)
                    \<lparr>lg_total_runs := lg_total_runs (lg_metadata all_traces) + length rs\<rparr>\<rparr>)))"

definition LG_dump_langraph_traces ::
  "env \<Rightarrow> dumper \<Rightarrow> string option \<Rightarrow> LG_document \<times> save_log" where
  "LG_dump_langraph_traces E self output_file =
     (let all_traces =
            \<lparr>lg_metadata =
               \<lparr>lg_mlflow_url = mlflow_url self,
                lg_dump_timestamp = now_isoformat E,
                lg_total_experiments = 0,
                lg_total_runs = 0,
                total_langraph_traces = 0\<rparr>,
             langraph_traces = []\<rparr>;
          experiments = get_all_experiments self;
          all_traces1 =
            all_traces
              \<lparr>lg_metadata :=
                 (lg_metadata all_traces)\<lparr>lg_total_experiments := length experiments\<rparr>\<rparr>
      in (LG_experiments_loop E self experiments all_traces1, save_to_file E output_file))"

section \<open>The three passes of ExperimentTraceDumper.get\_traces\_for\_run, each taken alone\<close>

text \<open>
  What each method of \<open>get_traces_for_run\<close> appends when it starts from an empty list and
  the other two are left out.
\<close>

definition ETD_api_pass :: "env \<Rightarrow> dumper \<Rightarrow> string \<Rightarrow> trace_record list" where
  "ETD_api_pass E self rid =
     (case traces_search (session self) rid of
        RequestException \<Rightarrow> []
      | Response status_code body \<Rightarrow>
          if status_code = 200 then ETD_api_loop E (get_or body []) [] else [])"

definition ETD_artifact_pass :: "dumper \<Rightarrow> string \<Rightarrow> trace_record list" where
  "ETD_artifact_pass self rid =
     (case artifacts_list (session self) rid of
        RequestException \<Rightarrow> []
      | Response status_code body \<Rightarrow>
          if status_code = 200 then fst (ETD_artifact_loop self rid (get_or body []) ([], []))
          else [])"

definition ETD_metadata_pass :: "env \<Rightarrow> dumper \<Rightarrow> string \<Rightarrow> trace_record list" where
  "ETD_metadata_pass E self rid =
     (case runs_get (session self) rid of
        RequestException \<Rightarrow> []
      | Response status_code body \<Rightarrow>
          if status_code = 200 then ETD_metadata_step E rid body [] else [])"

text \<open>One of the three requests of \<open>get_traces_for_run\<close> outside the inner \<open>try\<close> raises.\<close>

definition ETD_request_raises :: "dumper \<Rightarrow> string \<Rightarrow> bool" where
  "ETD_request_raises self rid =
     (traces_search (session self) rid = RequestException \<or>
      artifacts_list (session self) rid = RequestException \<or>
      runs_get (session self) rid = RequestException)"

text \<open>What one artifact contributes to the artifact loop.\<close>

definition ETD_artifact_record :: "dumper \<Rightarrow> string \<Rightarrow> artifact \<Rightarrow> trace_record list" where
  "ETD_artifact_record self rid a =
     (let p = get_or (path a) [] in
      if any_keyword ETD_artifact_keywords p then
        (case artifacts_download (session self) rid p of
           RequestException \<Rightarrow> []
         | Response status_code content \<Rightarrow>
             if status_code = 200 then [Artifact_trace p p content (length content)] else [])
      else [])"

fun ETD_api_records :: "env \<Rightarrow> nat \<Rightarrow> dict list \<Rightarrow> trace_record list" where
  "ETD_api_records E n [] = []"
| "ETD_api_records E n (trace # rest) =
     Api_trace (dict_get trace ''trace_id'' (JStr (''api_trace_'' @ str_nat n))) trace
       (json_dumps E (JObj trace)) # ETD_api_records E (Suc n) rest"

definition ETD_metadata_records ::
  "env \<Rightarrow> string \<Rightarrow> fetched_run option \<Rightarrow> trace_record list" where
  "ETD_metadata_records E rid body = ETD_metadata_step E rid body []"

section \<open>A mock server\<close>

definition example_env :: env where
  "example_env =
     \<lparr>json_dumps = (\<lambda>j. ''{}''),
      json_loads = (\<lambda>s. None),
      now_isoformat = ''2024-01-01T00:00:00'',
      write_succeeds = (\<lambda>file. True)\<rparr>"

definition run1 :: run where
  "run1 = \<lparr>info = \<lparr>run_id = ''run-1'', run_name = Some ''first''\<rparr>\<rparr>"

definition run2 :: run where
  "run2 = \<lparr>info = \<lparr>run_id = ''run-2'', run_name = Some ''second''\<rparr>\<rparr>"

definition plain_run :: fetched_run where
  "plain_run =
     \<lparr>fetched_info = Some \<lparr>fetched_run_name = Some ''first'', fetched_experiment_id = Some ''exp-1''\<rparr>,
      data = Some \<lparr>tags = Some [], params = Some []\<rparr>\<rparr>"

text \<open>
  One experiment \<open>exp-1\<close> with the runs \<open>run-1\<close> and \<open>run-2\<close>; \<open>run-1\<close> has the artifact
  \<open>run/trace.json\<close>, which downloads; \<open>/traces/search\<close> answers 200 with no trace; no run has
  tags or parameters.
\<close>

definition mock_server :: server where
  "mock_server =
     \<lparr>experiments_list = Response 200 (Some [\<lparr>experiment_id = ''exp-1'', name = Some ''demo''\<rparr>]),
      experiments_get =
        (\<lambda>e. if e = ''exp-1''
              then Response 200 (Some [(''experiment_id'', JStr ''exp-1''), (''name'', JStr ''demo'')])
              else Response 404 None),
      runs_search =
        (\<lambda>e. if e = ''exp-1'' then Response 200 (Some [run1, run2]) else Response 200 (Some [])),
      runs_get = (\<lambda>r. Response 200 (Some plain_run)),
      metrics_get_history = (\<lambda>r. Response 200 (Some [])),
      artifacts_list =
        (\<lambda>r. if r = ''run-1''
              then Response 200 (Some [\<lparr>path = Some ''run/trace.json'', file_size = Some 2\<rparr>])
              else Response 200 (Some [])),
      artifacts_download =
        (\<lambda>r p. if r = ''run-1'' \<and> p = ''run/trace.json'' then Response 200 ''{}''
                else Response 404 []),
      traces_search = (\<lambda>r. Response 200 (Some []))\<rparr>"

definition mock_dumper :: dumper where
  "mock_dumper = \<lparr>mlflow_url = ''http://localhost:5000'', session = mock_server\<rparr>"

section \<open>Properties of ExperimentTraceDumper.dump\_experiment\_traces\<close>

text \<open>
  C10. If the request for the experiment raises, answers with a 4xx or 5xx status, or
  answers without an experiment (an empty one), then \<open>dump_experiment_traces\<close> of
  \<open>experiment_trace_dumper.py\<close> returns the empty dictionary, writes no file, and the only
  request it has sent is the one for the experiment: no run, artifact or trace is fetched.
\<close>

theorem C10_experiment_not_found_returns_empty:
  assumes "experiments_get (session self) exp_id = RequestException \<or>
           (\<exists>status_code body.
              experiments_get (session self) exp_id = Response status_code body \<and>
              (raise_for_status status_code \<or> get_or body [] = []))"
  shows "ETD_dump_experiment_traces E self exp_id output_file =
           (None, No_output_file, [Get_experiments_get exp_id])"
  using assms
  by (auto simp: ETD_dump_experiment_traces_def ETD_get_experiment_info_def)

theorem C10_witness:
  "experiments_get (session mock_dumper) ''exp-9'' = Response 404 None \<and>
   raise_for_status 404 \<and>
   ETD_dump_experiment_traces example_env mock_dumper ''exp-9'' (Some ''out.json'') =
     (None, No_output_file, [Get_experiments_get ''exp-9''])"
proof -
  have r: "experiments_get (session mock_dumper) ''exp-9'' = Response 404 None"
    by (simp add: mock_dumper_def mock_server_def)
  have s: "raise_for_status 404"
    by (simp add: raise_for_status_def)
  from r s have
    "experiments_get (session mock_dumper) ''exp-9'' = RequestException \<or>
     (\<exists>status_code body.
        experiments_get (session mock_dumper) ''exp-9'' = Response status_code body \<and>
        (raise_for_status status_code \<or> get_or body [] = []))"
    by blast
  from C10_experiment_not_found_returns_empty [OF this] r s show ?thesis
    by simp
qed

end
